theory Spec2Isabelle
  imports Complex_Main "HOL-Library.Word"
begin

section \<open>JavaScript strings\<close>

text \<open>
  A JavaScript string is a sequence of UTF-16 code units; \<open>length\<close>, indexing,
  \<open>substring\<close> and regular expressions without the \<open>u\<close> flag all work on code
  units. \<open>js\<close> turns an ASCII literal into such a string.
\<close>

type_synonym jschar = "16 word"

type_synonym jsstring = "jschar list"

definition js :: "string \<Rightarrow> jsstring" where
  "js s = map (\<lambda>c. of_nat (of_char c)) s"

text \<open>The class \<open>\d\<close> is \<open>[0-9]\<close>; \<open>\D\<close> is its complement.\<close>

definition is_digit :: "jschar \<Rightarrow> bool" where
  "is_digit c = (0x30 \<le> c \<and> c \<le> 0x39)"

text \<open>
  The class \<open>\s\<close>, which is also the set of code units that \<open>trim\<close> removes:
  white space and line terminators of ECMAScript.
\<close>

definition is_space :: "jschar \<Rightarrow> bool" where
  "is_space c =
     (c = 0x09 \<or> c = 0x0A \<or> c = 0x0B \<or> c = 0x0C \<or> c = 0x0D \<or> c = 0x20 \<or> c = 0xA0
      \<or> c = 0x1680 \<or> (0x2000 \<le> c \<and> c \<le> 0x200A) \<or> c = 0x2028 \<or> c = 0x2029
      \<or> c = 0x202F \<or> c = 0x205F \<or> c = 0x3000 \<or> c = 0xFEFF)"

definition trim :: "jsstring \<Rightarrow> jsstring" where
  "trim s = rev (dropWhile is_space (rev (dropWhile is_space s)))"

text \<open>
  \<open>s.substring(start, end)\<close>: both indices are clamped to the length and swapped when
  \<open>start > end\<close>. \<open>s.substring(start)\<close> runs to the end of the string.
\<close>

definition substring :: "jsstring \<Rightarrow> nat \<Rightarrow> nat \<Rightarrow> jsstring" where
  "substring s start end =
     (let a = min start (length s); b = min end (length s)
      in take (max a b - min a b) (drop (min a b) s))"

definition substring_from :: "jsstring \<Rightarrow> nat \<Rightarrow> jsstring" where
  "substring_from s start = drop start s"

text \<open>
  \<open>encodeURIComponent\<close> raises a URIError exactly on a string with a lone surrogate:
  a high surrogate (D800 to DBFF) not followed by a low one (DC00 to DFFF), or a low
  surrogate not preceded by a high one.
\<close>

definition is_high_surrogate :: "jschar \<Rightarrow> bool" where
  "is_high_surrogate c = (0xD800 \<le> c \<and> c \<le> 0xDBFF)"

definition is_low_surrogate :: "jschar \<Rightarrow> bool" where
  "is_low_surrogate c = (0xDC00 \<le> c \<and> c \<le> 0xDFFF)"

fun encodable :: "jsstring \<Rightarrow> bool" where
  "encodable [] = True"
| "encodable [c] = (\<not> is_high_surrogate c \<and> \<not> is_low_surrogate c)"
| "encodable (c # d # cs) =
     (if is_high_surrogate c then is_low_surrogate d \<and> encodable cs
      else \<not> is_low_surrogate c \<and> encodable (d # cs))"


section \<open>Phone mask (form-validation.js)\<close>

text \<open>
  \<open>formatPhoneNumber(value)\<close>, statement by statement: the reassigned variables
  \<open>digits\<close> and \<open>formatted\<close> are rebound by successive \<open>let\<close>s. The code units
  0x37 and 0x38 are the characters 7 and 8.
\<close>

definition formatPhoneNumber :: "jsstring \<Rightarrow> jsstring" where
  "formatPhoneNumber value =
     (let digits = filter is_digit value;
          digits = (if length digits > 0 then
                      (if digits ! 0 = 0x38 then 0x37 # substring_from digits 1
                       else if digits ! 0 \<noteq> 0x37 then 0x37 # digits
                       else digits)
                    else digits);
          digits = substring digits 0 11;
          formatted = [];
          formatted = (if length digits \<ge> 1 then js ''+7'' else formatted);
          formatted = (if length digits \<ge> 2
                       then formatted @ js '' ('' @ substring digits 1 (min 4 (length digits))
                       else formatted);
          formatted = (if length digits \<ge> 5
                       then formatted @ js '') '' @ substring digits 4 (min 7 (length digits))
                       else formatted);
          formatted = (if length digits \<ge> 8
                       then formatted @ js ''-'' @ substring digits 7 (min 9 (length digits))
                       else formatted);
          formatted = (if length digits \<ge> 10
                       then formatted @ js ''-'' @ substring digits 9 11
                       else formatted)
      in formatted)"

text \<open>
  The progressive mask as the specification words it, to be compared with the code:
  a leading 8 becomes 7, any other leading digit but 7 gets a 7 in front; of the
  (at most 11) digits kept, \<open>digits_at d i j\<close> are those at positions \<open>i\<close> to \<open>j\<close>,
  counted from 1, as far as they are present.
\<close>

definition spec_normalize :: "jsstring \<Rightarrow> jsstring" where
  "spec_normalize d =
     (case d of
        [] \<Rightarrow> []
      | c # rest \<Rightarrow>
          (if c = 0x38 then 0x37 # rest
           else if c = 0x37 then c # rest
           else 0x37 # c # rest))"

definition digits_at :: "jsstring \<Rightarrow> nat \<Rightarrow> nat \<Rightarrow> jsstring" where
  "digits_at d i j = take (Suc j - i) (drop (i - 1) d)"

definition spec_mask :: "jsstring \<Rightarrow> jsstring" where
  "spec_mask d =
     (if length d = 0 then []
      else js ''+7''
        @ (if 2 \<le> length d then js '' ('' @ digits_at d 2 4 else [])
        @ (if 5 \<le> length d then js '') '' @ digits_at d 5 7 else [])
        @ (if 8 \<le> length d then js ''-'' @ digits_at d 8 9 else [])
        @ (if 10 \<le> length d then js ''-'' @ digits_at d 10 11 else []))"


section \<open>Field validation (form-validation.js)\<close>

text \<open>
  The two regular expressions of \<open>ValidationRules\<close> have the shapes \<open>^[class]+$\<close>
  and \<open>^a1 a2 ... an$\<close> (each atom one code unit). A class is a list of ranges,
  single code units and \<open>\s\<close>; an atom is a literal code unit or \<open>\d\<close>.
  Without the \<open>m\<close> flag \<open>^\<close> and \<open>$\<close> match only at the ends of the input.
\<close>

datatype class_item = Range jschar jschar | Single jschar | Whitespace

datatype atom = Lit jschar | Digit

datatype regex = ClassPlus "class_item list" | Template "atom list"

fun in_item :: "class_item \<Rightarrow> jschar \<Rightarrow> bool" where
  "in_item (Range lo hi) c = (lo \<le> c \<and> c \<le> hi)"
| "in_item (Single x) c = (c = x)"
| "in_item Whitespace c = is_space c"

definition in_class :: "class_item list \<Rightarrow> jschar \<Rightarrow> bool" where
  "in_class items c = list_ex (\<lambda>i. in_item i c) items"

fun match_template :: "atom list \<Rightarrow> jsstring \<Rightarrow> bool" where
  "match_template [] [] = True"
| "match_template (Lit x # atoms) (c # cs) = (c = x \<and> match_template atoms cs)"
| "match_template (Digit # atoms) (c # cs) = (is_digit c \<and> match_template atoms cs)"
| "match_template _ _ = False"

fun regex_test :: "regex \<Rightarrow> jsstring \<Rightarrow> bool" where
  "regex_test (ClassPlus items) s = (s \<noteq> [] \<and> list_all (in_class items) s)"
| "regex_test (Template atoms) s = match_template atoms s"

text \<open>
  The name pattern, item by item as the source writes it: Cyrillic small a to ya
  (0430 to 044F), capital A to Ya (0410 to 042F), small io (0451), capital Io (0401),
  \<open>a-z\<close>, \<open>A-Z\<close>, \<open>\s\<close> and the hyphen.
\<close>

definition name_pattern :: regex where
  "name_pattern =
     ClassPlus [Range 0x0430 0x044F, Range 0x0410 0x042F, Single 0x0451, Single 0x0401,
                Range 0x61 0x7A, Range 0x41 0x5A, Whitespace, Single 0x2D]"

definition phone_pattern :: regex where
  "phone_pattern =
     Template (map Lit (js ''+7 ('') @ replicate 3 Digit @ map Lit (js '') '')
               @ replicate 3 Digit @ map Lit (js ''-'') @ replicate 2 Digit
               @ map Lit (js ''-'') @ replicate 2 Digit)"

text \<open>
  The texts shown to the user are Russian sentences; the model keeps one tag for each
  string literal of the sources. None of them is the empty string.
\<close>

datatype msg =
    NameRuleMessage | PhoneRuleMessage | ProgramRuleMessage
  | GasOkMessage | GasErrorMessage | MockMessage
  | Bitrix24OkMessage | EmailOkMessage | EmailFallbackMessage | EmailFallbackWarning
  | WebhookNotConfigured | Bitrix24HttpError | Bitrix24ApiError | LeadNotSent

record ValidationRule =
  minLength :: "nat option"
  pattern :: "regex option"
  required :: bool
  message :: msg

definition ValidationRules :: "string \<Rightarrow> ValidationRule option" where
  "ValidationRules fieldName =
     (if fieldName = ''name'' then
        Some \<lparr>minLength = Some 2, pattern = Some name_pattern, required = False,
              message = NameRuleMessage\<rparr>
      else if fieldName = ''phone'' then
        Some \<lparr>minLength = None, pattern = Some phone_pattern, required = False,
              message = PhoneRuleMessage\<rparr>
      else if fieldName = ''program'' then
        Some \<lparr>minLength = None, pattern = None, required = True,
              message = ProgramRuleMessage\<rparr>
      else None)"

record validation =
  valid :: bool
  shown :: "msg option"

text \<open>
  \<open>validateField(fieldName, value)\<close> for a string \<open>value\<close>. A missing rule property
  is \<open>undefined\<close>, hence falsy; \<open>!value\<close> holds for the empty string only, and
  \<open>rules.minLength &&\<close> holds for a length that is not 0.
\<close>

definition validateField :: "string \<Rightarrow> jsstring \<Rightarrow> validation" where
  "validateField fieldName v =
     (case ValidationRules fieldName of
        None \<Rightarrow> \<lparr>valid = True, shown = None\<rparr>
      | Some rules \<Rightarrow>
          if required rules \<and> v = [] then
            \<lparr>valid = False, shown = Some (message rules)\<rparr>
          else if (case minLength rules of None \<Rightarrow> False
                   | Some n \<Rightarrow> n \<noteq> 0 \<and> length v < n) then
            \<lparr>valid = False, shown = Some (message rules)\<rparr>
          else if (case pattern rules of None \<Rightarrow> False
                   | Some p \<Rightarrow> \<not> regex_test p v) then
            \<lparr>valid = False, shown = Some (message rules)\<rparr>
          else \<lparr>valid = True, shown = None\<rparr>)"

text \<open>
  Two readings of the name rule's character class, to be compared with the code: the
  class the specification states (Latin letters, the whole Cyrillic block 0400 to
  04FF, white space, hyphen), and the class of Russian letters (0410 to 044F, 0401,
  0451) in place of the whole block.
\<close>

definition claimed_name_char :: "jschar \<Rightarrow> bool" where
  "claimed_name_char c =
     ((0x61 \<le> c \<and> c \<le> 0x7A) \<or> (0x41 \<le> c \<and> c \<le> 0x5A)
      \<or> (0x0400 \<le> c \<and> c \<le> 0x04FF) \<or> is_space c \<or> c = 0x2D)"

definition name_char :: "jschar \<Rightarrow> bool" where
  "name_char c =
     ((0x61 \<le> c \<and> c \<le> 0x7A) \<or> (0x41 \<le> c \<and> c \<le> 0x5A)
      \<or> (0x0410 \<le> c \<and> c \<le> 0x044F) \<or> c = 0x0401 \<or> c = 0x0451
      \<or> is_space c \<or> c = 0x2D)"

record FormData =
  name :: jsstring
  phone :: jsstring
  program :: jsstring
  childrenCount :: jsstring
  comment :: jsstring

text \<open>
  \<open>validateForm(formData)\<close>: the \<open>errors\<close> object as the list of its properties, in
  the order they are set.
\<close>

definition validateForm :: "FormData \<Rightarrow> (string \<times> msg option) list" where
  "validateForm formData =
     (let nameValidation = validateField ''name'' (name formData);
          errors = (if \<not> valid nameValidation
                    then [(''name'', shown nameValidation)] else []);
          phoneValidation = validateField ''phone'' (phone formData);
          errors = (if \<not> valid phoneValidation
                    then errors @ [(''phone'', shown phoneValidation)] else errors);
          programValidation = validateField ''program'' (program formData);
          errors = (if \<not> valid programValidation
                    then errors @ [(''program'', shown programValidation)] else errors)
      in errors)"


section \<open>JavaScript values\<close>

text \<open>
  The values that \<open>response.json()\<close> yields, and \<open>undefined\<close>. An object is the list
  of its own properties in enumeration order; of a number only whether it is zero is
  ever observed.
\<close>

datatype jsval =
    JUndefined | JNull | JBool bool | JNum rat | JStr string
  | JArr "jsval list" | JObj "(string \<times> jsval) list"

fun truthy :: "jsval \<Rightarrow> bool" where
  "truthy JUndefined = False"
| "truthy JNull = False"
| "truthy (JBool b) = b"
| "truthy (JNum n) = (n \<noteq> 0)"
| "truthy (JStr s) = (s \<noteq> [])"
| "truthy (JArr xs) = True"
| "truthy (JObj ps) = True"


text \<open>
  \<open>get v k\<close> is \<open>v.k\<close> for a value that is neither \<open>null\<close> nor \<open>undefined\<close>, for
  the property names the sources read (\<open>sections\<close>, \<open>title\<close>, \<open>enabled\<close>,
  \<open>content\<close>, \<open>success\<close>, \<open>error\<close>, \<open>result\<close> and the section keys): none
  of them is an array index or a property that strings, numbers, arrays or objects
  inherit, so only an object's own property can answer. \<open>get_prop\<close> adds the
  TypeError of a property read on \<open>null\<close> or \<open>undefined\<close>.
\<close>

fun get :: "jsval \<Rightarrow> string \<Rightarrow> jsval" where
  "get (JObj ps) k = (case map_of ps k of Some v \<Rightarrow> v | None \<Rightarrow> JUndefined)"
| "get _ k = JUndefined"

datatype errtext = Literal msg | ServerText jsval

datatype error = Thrown errtext | TypeError | URIError | Rejected nat

definition get_prop :: "jsval \<Rightarrow> string \<Rightarrow> error + jsval" where
  "get_prop v k = (if v = JUndefined \<or> v = JNull then Inl TypeError else Inr (get v k))"





section \<open>Form state (form-validation.js)\<close>

datatype FormState = IDLE | VALIDATING | SUBMITTING | SUCCESS | ERROR

datatype label = LabelChecking | LabelSending | LabelSent | LabelTryAgain | LabelSubmit

datatype colour = ColourSuccess | ColourError | ColourNone

text \<open>
  The form element and its submit button, as far as \<open>setFormState\<close> writes them: the
  one \<open>form-<state>\<close> class it keeps on the form, and the button's \<open>disabled\<close>,
  \<open>textContent\<close> and \<open>style.backgroundColor\<close>.
\<close>

record widgets =
  formClass :: "FormState option"
  disabled :: bool
  textContent :: label
  backgroundColor :: colour

text \<open>
  What a field's error element shows: the message of a failed rule (as \<open>errors\<close>
  holds it), or \<open>error.message || <generic text>\<close> of a failed submission.
\<close>

datatype notice = RuleNotice "msg option" | FailureNotice error

datatype callback = ResetForm

record LeadComments =
  comments_program :: jsstring
  comments_childrenCount :: "jsstring option"
  comments_comment :: "jsstring option"
  comments_device :: "string \<times> string \<times> string"

record LeadPayload =
  TITLE :: jsstring
  NAME :: jsstring
  PHONE :: jsstring
  COMMENTS :: LeadComments
  UTM_SOURCE :: "jsstring option"
  UTM_MEDIUM :: "jsstring option"
  UTM_CAMPAIGN :: "jsstring option"
  UTM_CONTENT :: "jsstring option"
  UTM_TERM :: "jsstring option"

text \<open>
  What the code does to the world outside its own variables, in order: an awaited
  \<open>setTimeout\<close> of so many milliseconds, the POST of the form to the generic submit
  endpoint, a POST to the CRM webhook.
\<close>

datatype effect = Sleep int | GasSubmit FormData | CrmPost string LeadPayload

text \<open>
  The state the form code reads and writes: the module variable \<open>currentFormState\<close>,
  the form and button (absent when the page has no such form or button), the error
  shown under each field, the success box, the callbacks scheduled with
  \<open>setTimeout\<close> and not awaited (with their delays, in scheduling order), the number
  of CRM requests made so far, and the effects so far.
\<close>

record world =
  currentFormState :: FormState
  widgets :: "widgets option"
  fieldErrors :: "string \<Rightarrow> notice option"
  successMessage :: "(msg \<times> msg option) option"
  timers :: "(int \<times> callback) list"
  crmCalls :: nat
  trace :: "effect list"

definition setFormState :: "FormState \<Rightarrow> world \<Rightarrow> world" where
  "setFormState state w =
     (let w = w\<lparr>currentFormState := state\<rparr> in
      case widgets w of
        None \<Rightarrow> w
      | Some b \<Rightarrow>
          (let b = b\<lparr>formClass := Some state\<rparr>;
               b = (case state of
                      VALIDATING \<Rightarrow> b\<lparr>disabled := True, textContent := LabelChecking\<rparr>
                    | SUBMITTING \<Rightarrow> b\<lparr>disabled := True, textContent := LabelSending\<rparr>
                    | SUCCESS \<Rightarrow> b\<lparr>disabled := True, textContent := LabelSent,
                                  backgroundColor := ColourSuccess\<rparr>
                    | ERROR \<Rightarrow> b\<lparr>disabled := False, textContent := LabelTryAgain,
                                backgroundColor := ColourError\<rparr>
                    | IDLE \<Rightarrow> b\<lparr>disabled := False, textContent := LabelSubmit,
                               backgroundColor := ColourNone\<rparr>)
           in w\<lparr>widgets := Some b\<rparr>))"

definition showFieldError :: "string \<Rightarrow> notice \<Rightarrow> world \<Rightarrow> world" where
  "showFieldError fieldName n w = w\<lparr>fieldErrors := (fieldErrors w)(fieldName \<mapsto> n)\<rparr>"

definition clearFieldError :: "string \<Rightarrow> world \<Rightarrow> world" where
  "clearFieldError fieldName w = w\<lparr>fieldErrors := (fieldErrors w)(fieldName := None)\<rparr>"

definition clearAllErrors :: "world \<Rightarrow> world" where
  "clearAllErrors w = fold clearFieldError [''name'', ''phone'', ''program''] w"

definition displayFormErrors :: "(string \<times> msg option) list \<Rightarrow> world \<Rightarrow> world" where
  "displayFormErrors errors w =
     fold (\<lambda>(fieldName, m). showFieldError fieldName (RuleNotice m)) errors w"

definition showSuccessMessage :: "msg \<Rightarrow> msg option \<Rightarrow> world \<Rightarrow> world" where
  "showSuccessMessage m warn w = w\<lparr>successMessage := Some (m, warn)\<rparr>"

definition sleep :: "int \<Rightarrow> world \<Rightarrow> world" where
  "sleep ms w = w\<lparr>trace := trace w @ [Sleep ms]\<rparr>"

definition setTimeout :: "callback \<Rightarrow> int \<Rightarrow> world \<Rightarrow> world" where
  "setTimeout cb ms w = w\<lparr>timers := timers w @ [(ms, cb)]\<rparr>"

text \<open>
  The callback that \<open>handleFormSubmit\<close> schedules after a success: it resets the
  input fields (they are the user's, not part of \<open>world\<close>), sets the state to idle and
  removes the success box.
\<close>

fun run_callback :: "callback \<Rightarrow> world \<Rightarrow> world" where
  "run_callback ResetForm w = (setFormState IDLE w)\<lparr>successMessage := None\<rparr>"

text \<open>The earliest scheduled callback fires; all delays of this page are equal.\<close>

definition fire_timer :: "world \<Rightarrow> world option" where
  "fire_timer w =
     (case timers w of
        [] \<Rightarrow> None
      | (ms, cb) # rest \<Rightarrow> Some (run_callback cb (w\<lparr>timers := rest\<rparr>)))"


section \<open>CRM integration (the Bitrix24 module)\<close>

record Bitrix24Config =
  webhookUrl :: string
  retryAttempts :: int
  retryDelay :: int
  fallbackEmail :: string

definition Bitrix24Config_default :: Bitrix24Config where
  "Bitrix24Config_default =
     \<lparr>webhookUrl = [], retryAttempts = 3, retryDelay = 1000,
      fallbackEmail = ''info@graduation.ru''\<rparr>"

record UTMParams =
  utm_source :: jsstring
  utm_medium :: jsstring
  utm_campaign :: jsstring
  utm_content :: jsstring
  utm_term :: jsstring

record DeviceInfo =
  device_type :: string
  device_browser :: string
  device_os :: string

text \<open>
  The outcome of one \<open>fetch\<close> of the webhook: the request fails, or a response arrives
  with its \<open>ok\<close> flag and what \<open>response.json()\<close> yields (a value, or a rejection).
\<close>

datatype fetch_result = FetchFails error | Response bool "error + jsval"

text \<open>
  What the page's surroundings decide: whether \<open>window.GAS_API\<close> exists and, if so,
  what the call to the submit endpoint followed by \<open>json()\<close> yields; whether the
  function \<open>createLead\<close> is loaded; the CRM configuration; the outcome of the
  n-th request to the webhook; the UTM parameters of the URL and the device
  information read from the user agent.
\<close>

record browser =
  GAS_API :: "(error + jsval) option"
  createLead_defined :: bool
  config :: Bitrix24Config
  crm_fetch :: "nat \<Rightarrow> fetch_result"
  utmParams :: UTMParams
  deviceInfo :: DeviceInfo

record SubmissionResult =
  success :: bool
  method_name :: string
  result_message :: msg
  warning :: "msg option"
  leadId :: "jsval option"

text \<open>
  \<open>getProgramName\<close>: the three known ids map to their Russian names (written here by
  their code units), any other id to itself. (For an id that names a property every
  object inherits, the source yields the printed form of that property, an ASCII
  text, which is not reproduced here.)
\<close>

definition getProgramName :: "jsstring \<Rightarrow> jsstring" where
  "getProgramName programId =
     (if programId = js ''heroes'' then
        [0x0412, 0x044B, 0x0437, 0x043E, 0x0432, 0x0020,
         0x0433, 0x0435, 0x0440, 0x043E, 0x0435, 0x0432]
      else if programId = js ''ancients'' then
        [0x0422, 0x0430, 0x0439, 0x043D, 0x044B, 0x0020,
         0x0414, 0x0440, 0x0435, 0x0432, 0x043D, 0x0438, 0x0445]
      else if programId = js ''not_sure'' then
        [0x041D, 0x0435, 0x0020, 0x043E, 0x043F, 0x0440, 0x0435, 0x0434,
         0x0435, 0x043B, 0x0438, 0x043B, 0x0438, 0x0441, 0x044C]
      else programId)"

definition nonempty :: "jsstring \<Rightarrow> jsstring option" where
  "nonempty s = (if s = [] then None else Some s)"

text \<open>
  \<open>createLeadPayload\<close>: the fixed Russian words of the title and of the comments are
  left out, their variable parts are kept; an optional part is present when its
  source string is truthy, that is, not empty.
\<close>

definition createLeadPayload :: "FormData \<Rightarrow> UTMParams \<Rightarrow> DeviceInfo \<Rightarrow> LeadPayload" where
  "createLeadPayload formData utm dev =
     (let programName = getProgramName (program formData);
          comments = \<lparr>comments_program = programName,
                      comments_childrenCount = nonempty (childrenCount formData),
                      comments_comment = nonempty (comment formData),
                      comments_device = (device_type dev, device_os dev, device_browser dev)\<rparr>
      in \<lparr>TITLE = programName, NAME = name formData, PHONE = phone formData,
          COMMENTS = comments,
          UTM_SOURCE = nonempty (utm_source utm), UTM_MEDIUM = nonempty (utm_medium utm),
          UTM_CAMPAIGN = nonempty (utm_campaign utm), UTM_CONTENT = nonempty (utm_content utm),
          UTM_TERM = nonempty (utm_term utm)\<rparr>)"

text \<open>
  \<open>sendToBitrix24(payload)\<close>: the missing webhook URL is raised before any request;
  otherwise one request is made, and it fails on a network failure, on a response
  that is not \<open>ok\<close>, on a body that does not parse, and on a body with a truthy
  \<open>error\<close>.
\<close>

definition sendToBitrix24 ::
    "browser \<Rightarrow> LeadPayload \<Rightarrow> world \<Rightarrow> (error + jsval) \<times> world" where
  "sendToBitrix24 env payload w =
     (if webhookUrl (config env) = [] then (Inl (Thrown (Literal WebhookNotConfigured)), w)
      else
        (let url = webhookUrl (config env)
                   @ (if last (webhookUrl (config env)) = CHR ''/'' then [] else ''/'')
                   @ ''crm.lead.add'';
             w1 = w\<lparr>crmCalls := crmCalls w + 1, trace := trace w @ [CrmPost url payload]\<rparr>
         in case crm_fetch env (crmCalls w) of
              FetchFails e \<Rightarrow> (Inl e, w1)
            | Response ok body \<Rightarrow>
                if \<not> ok then (Inl (Thrown (Literal Bitrix24HttpError)), w1)
                else
                  (case body of
                     Inl e \<Rightarrow> (Inl e, w1)
                   | Inr data \<Rightarrow>
                       (case get_prop data ''error'' of
                          Inl e \<Rightarrow> (Inl e, w1)
                        | Inr err \<Rightarrow>
                            if truthy err then (Inl (Thrown (Literal Bitrix24ApiError)), w1)
                            else (Inr data, w1)))))"

text \<open>
  \<open>sendViaEmail\<close> builds the subject and the body from fixed text and from the form's
  strings, passes both through \<open>encodeURIComponent\<close>, sends nothing and returns a
  success. The only way it can fail is the URIError of \<open>encodeURIComponent\<close>; the
  variable parts are separated by fixed text, so the whole is encodable exactly when
  each part is.
\<close>

definition sendViaEmail ::
    "FormData \<Rightarrow> UTMParams \<Rightarrow> DeviceInfo \<Rightarrow> error + SubmissionResult" where
  "sendViaEmail formData utm dev =
     (let programName = getProgramName (program formData);
          emailBody = [name formData, phone formData, programName]
                      @ (if childrenCount formData \<noteq> [] then [childrenCount formData] else [])
                      @ (if comment formData \<noteq> [] then [comment formData] else [])
                      @ [utm_source utm, utm_medium utm, utm_campaign utm]
      in if encodable programName \<and> list_all encodable emailBody then
           Inr \<lparr>success = True, method_name = ''email_fallback'',
                result_message = EmailOkMessage, warning = None, leadId = None\<rparr>
         else Inl URIError)"

text \<open>
  \<open>retryWithBackoff(fn, attempts, delay)\<close> for integer \<open>attempts\<close> and \<open>delay\<close>. The
  loop variable \<open>i\<close> runs from 0; a loop that ends without returning yields
  \<open>undefined\<close>, here \<open>None\<close>.
\<close>

function retry_loop ::
    "(world \<Rightarrow> (error + 'a) \<times> world) \<Rightarrow> int \<Rightarrow> int \<Rightarrow> int \<Rightarrow> world
      \<Rightarrow> (error + 'a option) \<times> world" where
  "retry_loop fn attempts delay i w =
     (if i < attempts then
        (let (r, w1) = fn w in
         case r of
           Inr v \<Rightarrow> (Inr (Some v), w1)
         | Inl e \<Rightarrow>
             (let isLastAttempt = (i = attempts - 1) in
              if isLastAttempt then (Inl e, w1)
              else
                (let waitTime = delay * 2 ^ nat i
                 in retry_loop fn attempts delay (i + 1) (sleep waitTime w1))))
      else (Inr None, w))"
  by pat_completeness auto
termination
  by (relation "measure (\<lambda>(fn, attempts, delay, i, w). nat (attempts - i))") auto

definition retryWithBackoff ::
    "(world \<Rightarrow> (error + 'a) \<times> world) \<Rightarrow> int \<Rightarrow> int \<Rightarrow> world
      \<Rightarrow> (error + 'a option) \<times> world" where
  "retryWithBackoff fn attempts delay w = retry_loop fn attempts delay 0 w"

text \<open>
  \<open>createLead(formData)\<close>. Inside the \<open>try\<close>, \<open>result.result\<close> is read: on the
  \<open>undefined\<close> of a loop that made no attempt this raises a TypeError, which the
  \<open>catch\<close> turns into the email fallback like any failure of the CRM.
\<close>

definition emailFallback ::
    "browser \<Rightarrow> FormData \<Rightarrow> world \<Rightarrow> (error + SubmissionResult) \<times> world" where
  "emailFallback env formData w =
     (case sendViaEmail formData (utmParams env) (deviceInfo env) of
        Inr emailResult \<Rightarrow>
          (Inr \<lparr>success = True, method_name = ''email_fallback'',
                 result_message = EmailFallbackMessage,
                 warning = Some EmailFallbackWarning, leadId = None\<rparr>, w)
      | Inl emailError \<Rightarrow> (Inl (Thrown (Literal LeadNotSent)), w))"

definition createLead ::
    "browser \<Rightarrow> FormData \<Rightarrow> world \<Rightarrow> (error + SubmissionResult) \<times> world" where
  "createLead env formData w =
     (let payload = createLeadPayload formData (utmParams env) (deviceInfo env) in
      case retryWithBackoff (sendToBitrix24 env payload)
             (retryAttempts (config env)) (retryDelay (config env)) w of
        (Inr (Some result), w1) \<Rightarrow>
          (case get_prop result ''result'' of
             Inr v \<Rightarrow>
               (Inr \<lparr>success = True, method_name = ''bitrix24'',
                      result_message = Bitrix24OkMessage, warning = None,
                      leadId = Some v\<rparr>, w1)
           | Inl e \<Rightarrow> emailFallback env formData w1)
      | (Inr None, w1) \<Rightarrow> emailFallback env formData w1
      | (Inl e, w1) \<Rightarrow> emailFallback env formData w1)"


section \<open>Form submission (form-validation.js)\<close>

text \<open>
  The tiers of \<open>handleFormSubmit\<close>, from \<open>Try GAS backend first\<close> to the value of
  \<open>result\<close>: the generic backend when \<open>window.GAS_API\<close> exists, \<open>createLead\<close>
  when that fails or is absent, the mock submission when neither exists.
\<close>

definition gasSubmit :: "error + jsval \<Rightarrow> error + SubmissionResult" where
  "gasSubmit outcome =
     (case outcome of
        Inl e \<Rightarrow> Inl e
      | Inr gasData \<Rightarrow>
          (case get_prop gasData ''success'' of
             Inl e \<Rightarrow> Inl e
           | Inr ok \<Rightarrow>
               if truthy ok then
                 Inr \<lparr>success = True, method_name = ''gas'', result_message = GasOkMessage,
                      warning = None, leadId = None\<rparr>
               else if truthy (get gasData ''error'')
                 then Inl (Thrown (ServerText (get gasData ''error'')))
                 else Inl (Thrown (Literal GasErrorMessage))))"

definition submitLead ::
    "browser \<Rightarrow> FormData \<Rightarrow> world \<Rightarrow> (error + SubmissionResult) \<times> world" where
  "submitLead env formData w =
     (case GAS_API env of
        Some outcome \<Rightarrow>
          (let w1 = w\<lparr>trace := trace w @ [GasSubmit formData]\<rparr> in
           case gasSubmit outcome of
             Inr result \<Rightarrow> (Inr result, w1)
           | Inl gasError \<Rightarrow>
               if createLead_defined env then createLead env formData w1
               else (Inl gasError, w1))
      | None \<Rightarrow>
          if createLead_defined env then createLead env formData w
          else (Inr \<lparr>success = True, method_name = ''mock'', result_message = MockMessage,
                      warning = None, leadId = None\<rparr>, sleep 1500 w))"

text \<open>
  \<open>handleFormSubmit\<close> runs in two parts. The first, up to the first \<open>await\<close>, reads
  the fields, validates and either ends in the error state or enters the submitting
  state with the form data in hand. The second runs when the submission has settled,
  with its outcome: a returned result or a raised error. (The analytics hooks it calls
  change nothing of this state and raise nothing.)
\<close>

definition readForm :: "FormData \<Rightarrow> FormData" where
  "readForm inputs =
     \<lparr>name = trim (name inputs), phone = trim (phone inputs), program = program inputs,
      childrenCount = childrenCount inputs, comment = trim (comment inputs)\<rparr>"

definition handleFormSubmit_begin :: "FormData \<Rightarrow> world \<Rightarrow> world \<times> FormData option" where
  "handleFormSubmit_begin inputs w =
     (let w = clearAllErrors w;
          w = w\<lparr>successMessage := None\<rparr>;
          w = setFormState VALIDATING w;
          formData = readForm inputs;
          errors = validateForm formData
      in if length errors > 0 then (displayFormErrors errors (setFormState ERROR w), None)
         else (setFormState SUBMITTING w, Some formData))"

definition handleFormSubmit_failed :: "error \<Rightarrow> world \<Rightarrow> world" where
  "handleFormSubmit_failed e w =
     showFieldError ''phone'' (FailureNotice e) (setFormState ERROR w)"

definition handleFormSubmit_finish :: "error + SubmissionResult \<Rightarrow> world \<Rightarrow> world" where
  "handleFormSubmit_finish outcome w =
     (case outcome of
        Inr result \<Rightarrow>
          if success result then
            setTimeout ResetForm 5000
              (showSuccessMessage (result_message result) (warning result)
                 (setFormState SUCCESS w))
          else handleFormSubmit_failed (Thrown (Literal (result_message result))) w
      | Inl e \<Rightarrow> handleFormSubmit_failed e w)"


text \<open>
  \<open>initFormValidation\<close> leaves a page whose form exists in the idle state.
\<close>

definition initFormValidation :: "widgets option \<Rightarrow> world" where
  "initFormValidation ws =
     setFormState IDLE
       \<lparr>currentFormState = IDLE, widgets = ws, fieldErrors = Map.empty,
        successMessage = None, timers = [], crmCalls = 0, trace = []\<rparr>"


section \<open>The form as an event-driven system\<close>

text \<open>
  Between two events the page holds its \<open>world\<close> and the runs of \<open>handleFormSubmit\<close>
  that wait for their submission to settle. An event is a \<open>submit\<close> event on the form
  (with the field values at that moment), the settling of the i-th waiting run with an
  outcome, or the firing of the earliest timer. \<open>step\<close> is \<open>None\<close> for an event that
  cannot happen.
\<close>

record system =
  page :: world
  inFlight :: "FormData list"

datatype form_event =
    Submit FormData
  | Settle nat "error + SubmissionResult"
  | TimerFires

fun step :: "form_event \<Rightarrow> system \<Rightarrow> system option" where
  "step (Submit inputs) s =
     (case handleFormSubmit_begin inputs (page s) of
        (w, None) \<Rightarrow> Some (s\<lparr>page := w\<rparr>)
      | (w, Some formData) \<Rightarrow> Some (s\<lparr>page := w, inFlight := inFlight s @ [formData]\<rparr>))"
| "step (Settle i outcome) s =
     (if i < length (inFlight s) then
        Some (s\<lparr>page := handleFormSubmit_finish outcome (page s),
                inFlight := take i (inFlight s) @ drop (Suc i) (inFlight s)\<rparr>)
      else None)"
| "step TimerFires s =
     (case fire_timer (page s) of
        None \<Rightarrow> None
      | Some w \<Rightarrow> Some (s\<lparr>page := w\<rparr>))"

fun run :: "form_event list \<Rightarrow> system \<Rightarrow> system option" where
  "run [] s = Some s"
| "run (e # es) s = (case step e s of None \<Rightarrow> None | Some s' \<Rightarrow> run es s')"

text \<open>
  The only guard against a second submission is the disabled submit button: a user
  cannot submit a form whose submit button is disabled or missing, while a script can
  dispatch the event at any time. \<open>user_driven es s\<close> says that every submit event
  of \<open>es\<close>, run from \<open>s\<close>, arrives while the button is enabled.
\<close>

definition submit_enabled :: "system \<Rightarrow> bool" where
  "submit_enabled s =
     (case widgets (page s) of None \<Rightarrow> False | Some b \<Rightarrow> \<not> disabled b)"

fun is_Submit :: "form_event \<Rightarrow> bool" where
  "is_Submit (Submit inputs) = True"
| "is_Submit _ = False"

fun user_driven :: "form_event list \<Rightarrow> system \<Rightarrow> bool" where
  "user_driven [] s = True"
| "user_driven (e # es) s =
     ((is_Submit e \<longrightarrow> submit_enabled s)
      \<and> (case step e s of None \<Rightarrow> True | Some s' \<Rightarrow> user_driven es s'))"

definition start :: "widgets \<Rightarrow> system" where
  "start ws = \<lparr>page = initFormValidation (Some ws), inFlight = []\<rparr>"


section \<open>Settings hydration (blocks-manager.js)\<close>










text \<open>
  The page as the hydrator sees it: the module variable \<open>sectionsSettings\<close>; for each
  selector the \<open>style.display\<close> of the element it finds (\<open>None\<close> when it finds none);
  for each selector and index, whether the element has a \<open>.card\<close> of that index with
  a heading or a paragraph in it; and the requests sent so far.
\<close>

datatype request = Fetch string | SaveData string jsval

record site =
  sectionsSettings :: jsval
  display :: "string \<Rightarrow> string option"
  cards :: "string \<Rightarrow> nat \<Rightarrow> bool"
  requests :: "request list"

text \<open>
  The servers: what \<open>fetch\<close> followed by \<open>json()\<close> yields for the settings document
  and for the default one, and whether \<open>window.GAS_API\<close> exists.
\<close>

record servers =
  settings_json :: "error + jsval"
  settings_default_json :: "error + jsval"
  save_api :: bool




definition set_display :: "string \<Rightarrow> string \<Rightarrow> site \<Rightarrow> site" where
  "set_display selector d p = p\<lparr>display := (display p)(selector \<mapsto> d)\<rparr>"




definition knownSelectors :: "string list" where
  "knownSelectors =
     [''#problem-solution'', ''#programs'', ''.program-comparison-note'', ''#how-it-works'',
      ''#social-proof'', ''#testimonials'', ''#gallery'', ''#pricing'', ''#faq'',
      ''#faq .text-center.mt-xl'', ''#lead-form'', ''.footer-about'', ''.footer-contacts'',
      ''.footer-documents'']"

definition show_section :: "string \<Rightarrow> site \<Rightarrow> site" where
  "show_section selector p =
     (case display p selector of None \<Rightarrow> p | Some d \<Rightarrow> set_display selector [] p)"

definition showAllSections :: "site \<Rightarrow> site" where
  "showAllSections p = fold show_section knownSelectors p"

text \<open>
  \<open>saveRecoveredSettings\<close> posts the recovered document to the save endpoint, as the
  new content of \<open>settings.json\<close>, and ignores every outcome; without
  \<open>window.GAS_API\<close> the call raises inside its own \<open>try\<close> and nothing is sent.
\<close>

definition saveRecoveredSettings :: "servers \<Rightarrow> jsval \<Rightarrow> site \<Rightarrow> site" where
  "saveRecoveredSettings env recoveredSettings p =
     (if save_api env
      then p\<lparr>requests := requests p @ [SaveData ''settings.json'' recoveredSettings]\<rparr>
      else p)"




section \<open>Method names and example inputs\<close>

text \<open>
  The values of \<open>method\<close> that the code writes into a result, and the values the
  specification lists.
\<close>

definition methods :: "string list" where
  "methods = [''gas'', ''bitrix24'', ''email_fallback'', ''mock'']"

definition claimed_methods :: "string list" where
  "claimed_methods = [''primary'', ''crm'', ''email_fallback'', ''mock'']"

text \<open>
  A filled form, a page with a submit button, surroundings in which the generic
  backend and every request to the CRM fail, and surroundings in which the generic
  backend answers \<open>{success: true}\<close>.
\<close>

definition example_inputs :: FormData where
  "example_inputs =
     \<lparr>name = js '' Anna Li'', phone = js ''+7 (999) 123-45-67'', program = js ''heroes'',
      childrenCount = js ''25'', comment = []\<rparr>"

definition example_widgets :: widgets where
  "example_widgets =
     \<lparr>formClass = None, disabled = False, textContent = LabelSubmit,
      backgroundColor = ColourNone\<rparr>"

definition unreachable_env :: browser where
  "unreachable_env =
     \<lparr>GAS_API = Some (Inl (Rejected 0)), createLead_defined = True,
      config = Bitrix24Config_default\<lparr>webhookUrl := ''https://crm.example/rest/1/key''\<rparr>,
      crm_fetch = (\<lambda>n. FetchFails (Rejected (Suc n))),
      utmParams = \<lparr>utm_source = [], utm_medium = [], utm_campaign = [], utm_content = [],
                   utm_term = []\<rparr>,
      deviceInfo = \<lparr>device_type = ''desktop'', device_browser = ''Chrome'',
                    device_os = ''Linux''\<rparr>\<rparr>"

definition example_payload :: LeadPayload where
  "example_payload =
     createLeadPayload (readForm example_inputs) (utmParams unreachable_env)
       (deviceInfo unreachable_env)"

definition primary_env :: browser where
  "primary_env = unreachable_env\<lparr>GAS_API := Some (Inr (JObj [(''success'', JBool True)]))\<rparr>"


text \<open>
  The states the page is in between two events when every \<open>submit\<close> event came
  from the user: idle or error with the button enabled, nothing waiting and no timer;
  submitting with the button disabled and one run waiting; success with the button
  disabled and the reset timer pending.
\<close>

definition settled :: "system \<Rightarrow> bool" where
  "settled s =
     (case widgets (page s) of
        None \<Rightarrow> False
      | Some b \<Rightarrow>
          (case currentFormState (page s) of
             IDLE \<Rightarrow> \<not> disabled b \<and> inFlight s = [] \<and> timers (page s) = []
           | ERROR \<Rightarrow> \<not> disabled b \<and> inFlight s = [] \<and> timers (page s) = []
           | SUBMITTING \<Rightarrow> disabled b \<and> length (inFlight s) = 1 \<and> timers (page s) = []
           | SUCCESS \<Rightarrow> disabled b \<and> inFlight s = [] \<and> length (timers (page s)) = 1
           | VALIDATING \<Rightarrow> False))"

text \<open>
  A settled mock submission, and the events of one whole submission: the submit
  event, its settling, the reset timer.
\<close>

definition example_result :: SubmissionResult where
  "example_result =
     \<lparr>success = True, method_name = ''mock'', result_message = MockMessage,
      warning = None, leadId = None\<rparr>"

definition example_events :: "form_event list" where
  "example_events = [Submit example_inputs, Settle 0 (Inr example_result), TimerFires]"


section \<open>Fully valid documents, requests and example pages\<close>










section \<open>Properties of the phone mask\<close>

lemma take_min_length: "take (min k (length xs)) xs = take k xs"
  by (simp add: min_def)

lemma substring_take_drop:
  assumes ab: "a \<le> b"
  shows "substring s a b = take (b - a) (drop a s)"
proof (cases "a \<le> length s")
  case True
  have e: "min b (length s) - a = min (b - a) (length (drop a s))"
    using ab True by simp
  have "substring s a b = take (min b (length s) - a) (drop a s)"
    using ab True by (simp add: substring_def Let_def min_absorb1)
  also have "\<dots> = take (b - a) (drop a s)"
    unfolding e by (rule take_min_length)
  finally show ?thesis .
next
  case False
  then show ?thesis using ab by (simp add: substring_def Let_def)
qed

lemma substring_min_length: "substring s a (min b (length s)) = substring s a b"
  by (simp add: substring_def Let_def)

lemma normalize_step:
  "(if length ds > 0 then
      (if ds ! 0 = 0x38 then 0x37 # substring_from ds 1
       else if ds ! 0 \<noteq> 0x37 then 0x37 # ds
       else ds)
    else ds) = spec_normalize ds"
  by (cases ds) (simp_all add: spec_normalize_def substring_from_def)

text \<open>
  The code computes the mask of the specification on the digits of any input, digits
  or not.
\<close>

lemma formatPhoneNumber_mask:
  "formatPhoneNumber v = spec_mask (take 11 (spec_normalize (filter is_digit v)))"
proof -
  define d where "d = take 11 (spec_normalize (filter is_digit v))"
  have s0: "substring (spec_normalize (filter is_digit v)) 0 11 = d"
    by (simp add: substring_take_drop d_def)
  have "formatPhoneNumber v = spec_mask d"
    unfolding formatPhoneNumber_def Let_def normalize_step s0
    by (cases d)
      (simp_all add: spec_mask_def digits_at_def substring_min_length substring_take_drop)
  then show ?thesis by (simp add: d_def)
qed

lemma spec_normalize_digits:
  "list_all is_digit d \<Longrightarrow> list_all is_digit (spec_normalize d)"
  by (cases d) (simp_all add: spec_normalize_def is_digit_def)

lemma spec_normalize_hd: "spec_normalize d = [] \<or> hd (spec_normalize d) = 0x37"
  by (cases d) (simp_all add: spec_normalize_def)

lemma spec_normalize_fixed: "d = [] \<or> hd d = 0x37 \<Longrightarrow> spec_normalize d = d"
  by (cases d) (auto simp add: spec_normalize_def)

lemma filter_digits_js [simp]:
  "filter is_digit (js ''+7'') = [0x37]"
  "filter is_digit (js '' ('') = []"
  "filter is_digit (js '') '') = []"
  "filter is_digit (js ''-'') = []"
  by (simp_all add: js_def is_digit_def)

lemma filter_all: "list_all P xs \<Longrightarrow> filter P xs = xs"
  by (induction xs) simp_all

lemma filter_digits_at:
  "list_all is_digit d \<Longrightarrow> filter is_digit (digits_at d i j) = digits_at d i j"
  unfolding digits_at_def
  by (rule filter_all) (auto simp: list_all_iff dest: in_set_takeD in_set_dropD)

lemma mask_pieces:
  "take 1 d @ take 3 (drop 1 d) @ take 3 (drop 4 d) @ take 2 (drop 7 d) @ take 2 (drop 9 d)
     = take 11 d"
proof -
  have "take 11 d = take (1 + (3 + (3 + (2 + 2)))) d" by simp
  also have "\<dots> = take 1 d @ take 3 (drop 1 d) @ take 3 (drop 4 d) @ take 2 (drop 7 d)
                     @ take 2 (drop 9 d)"
    unfolding take_add drop_drop by simp
  finally show ?thesis by simp
qed

lemma filter_mask_group:
  assumes "list_all is_digit d" and "filter is_digit p = []" and "i = Suc k"
  shows "filter is_digit (if i \<le> length d then p @ digits_at d i j else []) = digits_at d i j"
  using assms by (simp add: filter_digits_at) (simp add: digits_at_def)

text \<open>The digits of a mask are the digits it was made from.\<close>

lemma filter_spec_mask:
  assumes dg: "list_all is_digit d" and hd7: "d = [] \<or> hd d = 0x37"
  shows "filter is_digit (spec_mask d) = take 11 d"
proof (cases "d = []")
  case True
  then show ?thesis by (simp add: spec_mask_def)
next
  case False
  with hd7 have t1: "[0x37] = take 1 d" by (cases d) simp_all
  have g2: "filter is_digit (if 2 \<le> length d then js '' ('' @ digits_at d 2 4 else [])
              = digits_at d 2 4"
    by (rule filter_mask_group [OF dg]) simp_all
  have g5: "filter is_digit (if 5 \<le> length d then js '') '' @ digits_at d 5 7 else [])
              = digits_at d 5 7"
    by (rule filter_mask_group [OF dg]) simp_all
  have g8: "filter is_digit (if 8 \<le> length d then js ''-'' @ digits_at d 8 9 else [])
              = digits_at d 8 9"
    by (rule filter_mask_group [OF dg]) simp_all
  have g10: "filter is_digit (if 10 \<le> length d then js ''-'' @ digits_at d 10 11 else [])
              = digits_at d 10 11"
    by (rule filter_mask_group [OF dg]) simp_all
  have "spec_mask d = js ''+7''
        @ (if 2 \<le> length d then js '' ('' @ digits_at d 2 4 else [])
        @ (if 5 \<le> length d then js '') '' @ digits_at d 5 7 else [])
        @ (if 8 \<le> length d then js ''-'' @ digits_at d 8 9 else [])
        @ (if 10 \<le> length d then js ''-'' @ digits_at d 10 11 else [])"
    using False by (simp add: spec_mask_def)
  then have "filter is_digit (spec_mask d) =
          [0x37] @ digits_at d 2 4 @ digits_at d 5 7 @ digits_at d 8 9 @ digits_at d 10 11"
    by (simp only: filter_append g2 g5 g8 g10 filter_digits_js)
  also have "\<dots> = take 1 d @ take 3 (drop 1 d) @ take 3 (drop 4 d) @ take 2 (drop 7 d)
                     @ take 2 (drop 9 d)"
    unfolding t1 by (simp add: digits_at_def)
  also have "\<dots> = take 11 d" by (rule mask_pieces)
  finally show ?thesis .
qed

text \<open>
  Claim C1. For every sequence \<open>d\<close> of 0 to 11 digits, \<open>formatPhoneNumber d\<close> is the
  progressive mask of the specification: nothing for no digit; otherwise \<open>+7\<close>, then
  an opening bracket and the digits 2 to 4 once there are two digits, a closing bracket
  and the digits 5 to 7 once there are five, a hyphen and the digits 8 to 9 once there
  are eight, a hyphen and the digits 10 to 11 once there are ten; all this on the
  digits after a leading 8 has become 7 or a 7 has been put before any other leading
  digit, cut to 11 digits.
\<close>

theorem formatPhoneNumber_progressive_mask:
  assumes "list_all is_digit d" and "length d \<le> 11"
  shows "formatPhoneNumber d = spec_mask (take 11 (spec_normalize d))"
  using assms by (simp add: formatPhoneNumber_mask filter_all)

text \<open>The three examples of the claim, each through the theorem.\<close>

theorem formatPhoneNumber_progressive_mask_witness:
  "formatPhoneNumber (js ''9991234567'') = js ''+7 (999) 123-45-67''
   \<and> formatPhoneNumber (js ''89991234567'') = js ''+7 (999) 123-45-67''
   \<and> formatPhoneNumber (js ''71234'') = js ''+7 (123) 4''
   \<and> formatPhoneNumber [] = []"
  using formatPhoneNumber_progressive_mask [of "js ''9991234567''"]
        formatPhoneNumber_progressive_mask [of "js ''89991234567''"]
        formatPhoneNumber_progressive_mask [of "js ''71234''"]
        formatPhoneNumber_progressive_mask [of "[]"]
  by (simp add: js_def is_digit_def spec_normalize_def spec_mask_def digits_at_def)

text \<open>
  Claim C9. \<open>formatPhoneNumber\<close> is idempotent: formatting its own output changes
  nothing, for every input string.
\<close>

theorem formatPhoneNumber_idempotent:
  "formatPhoneNumber (formatPhoneNumber s) = formatPhoneNumber s"
proof -
  define d where "d = take 11 (spec_normalize (filter is_digit s))"
  have dg: "list_all is_digit d"
    unfolding d_def using spec_normalize_digits [of "filter is_digit s"]
    by (auto simp: list_all_iff dest: in_set_takeD)
  have hd7: "d = [] \<or> hd d = 0x37"
    unfolding d_def using spec_normalize_hd [of "filter is_digit s"]
    by (cases "spec_normalize (filter is_digit s)") auto
  have len: "length d \<le> 11" by (simp add: d_def)
  have out: "formatPhoneNumber s = spec_mask d"
    by (simp add: formatPhoneNumber_mask d_def)
  have "filter is_digit (spec_mask d) = d"
    using filter_spec_mask [OF dg hd7] len by simp
  moreover have "spec_normalize d = d" using hd7 by (rule spec_normalize_fixed)
  moreover have "take 11 d = d" using len by simp
  ultimately have "formatPhoneNumber (spec_mask d) = spec_mask d"
    by (simp add: formatPhoneNumber_mask)
  then show ?thesis by (simp add: out)
qed

theorem formatPhoneNumber_idempotent_witness:
  "formatPhoneNumber (formatPhoneNumber (js ''8 (999) 123-45-67 ext. 89''))
     = js ''+7 (999) 123-45-67''"
proof -
  have "formatPhoneNumber (js ''8 (999) 123-45-67 ext. 89'') = js ''+7 (999) 123-45-67''"
    by (simp add: formatPhoneNumber_mask js_def is_digit_def spec_normalize_def
        spec_mask_def digits_at_def)
  then show ?thesis
    using formatPhoneNumber_idempotent [of "js ''8 (999) 123-45-67 ext. 89''"] by simp
qed


section \<open>Properties of field validation\<close>

lemma cyrillic_ranges:
  "((0x0430 \<le> c \<and> c \<le> 0x044F) \<or> (0x0410 \<le> c \<and> c \<le> 0x042F))
     = (0x0410 \<le> c \<and> c \<le> (0x044F :: jschar))"
  unfolding word_le_nat_alt by auto

lemma in_name_class:
  "in_class [Range 0x0430 0x044F, Range 0x0410 0x042F, Single 0x0451, Single 0x0401,
             Range 0x61 0x7A, Range 0x41 0x5A, Whitespace, Single 0x2D] c = name_char c"
  unfolding in_class_def name_char_def
  using cyrillic_ranges [of c] by simp blast

text \<open>
  Claim C6, as the code has it. \<open>validateField('name', v)\<close> is valid exactly when
  \<open>v\<close> is not empty, has at least 2 code units and consists only of Latin letters,
  the Russian letters 0410 to 044F, 0401 and 0451, white space and the hyphen.
\<close>

theorem validateField_name:
  "valid (validateField ''name'' v) \<longleftrightarrow> v \<noteq> [] \<and> 2 \<le> length v \<and> list_all name_char v"
proof -
  have "list_all (in_class [Range 0x0430 0x044F, Range 0x0410 0x042F, Single 0x0451,
          Single 0x0401, Range 0x61 0x7A, Range 0x41 0x5A, Whitespace, Single 0x2D]) v
        = list_all name_char v"
    by (simp add: in_name_class [abs_def])
  then show ?thesis
    by (auto simp add: validateField_def ValidationRules_def name_pattern_def)
qed

text \<open>The two examples of the claim: \<open>Anna Li\<close> is valid, \<open>A\<close> is not.\<close>

theorem validateField_name_witness:
  "valid (validateField ''name'' (js ''Anna Li''))
   \<and> \<not> valid (validateField ''name'' (js ''A''))"
  using validateField_name [of "js ''Anna Li''"] validateField_name [of "js ''A''"]
  by (simp add: js_def name_char_def is_space_def)

text \<open>
  Claim C6, as stated, fails: the two Ukrainian letters 0456 and 0457 lie in the
  Cyrillic block 0400 to 04FF and make a string of length 2, which the claim calls
  valid, and the code rejects it.
\<close>

theorem validateField_name_counterexample:
  "2 \<le> length [0x0456, 0x0457 :: jschar]
   \<and> list_all claimed_name_char [0x0456, 0x0457]
   \<and> \<not> valid (validateField ''name'' [0x0456, 0x0457])"
  by (simp add: claimed_name_char_def validateField_def ValidationRules_def
      name_pattern_def in_class_def is_space_def)


section \<open>Properties of the retry loop and of the CRM tier\<close>

declare retry_loop.simps [simp del]


lemma sendToBitrix24_unreachable:
  "sendToBitrix24 unreachable_env p u =
     (Inl (Rejected (Suc (crmCalls u))),
      u\<lparr>crmCalls := crmCalls u + 1,
        trace := trace u @ [CrmPost ''https://crm.example/rest/1/key/crm.lead.add'' p]\<rparr>)"
  by (simp add: sendToBitrix24_def unreachable_env_def Bitrix24Config_default_def)

lemma replicate_numeral_3:
  "replicate 3 x = [x, x, x]" "replicate 2 x = [x, x]"
  by (simp_all add: numeral_3_eq_3 numeral_2_eq_2)

lemma example_inputs_valid: "validateForm (readForm example_inputs) = []"
  by (simp add: validateForm_def readForm_def example_inputs_def validateField_def
      ValidationRules_def name_pattern_def phone_pattern_def in_class_def is_space_def
      is_digit_def trim_def js_def Let_def replicate_numeral_3)


text \<open>
  Claim C2. For every \<open>fn\<close> that always throws, \<open>retryWithBackoff(fn, 3, 1000)\<close>
  calls \<open>fn\<close> three times: on the world it is given, on the world of the first call
  after a wait of 1000 ms, and on the world of the second call after a wait of 2000 ms
  (\<open>delay * 2^i\<close> after the failed attempt \<open>i\<close>). It waits no more after the third
  call and raises the error of that call.
\<close>

theorem retryWithBackoff_three_attempts:
  assumes "\<forall>w. isl (fst (fn w))"
  shows "\<exists>e1 e2 e3 w1 w2 w3.
           fn w = (Inl e1, w1)
         \<and> fn (sleep 1000 w1) = (Inl e2, w2)
         \<and> fn (sleep 2000 w2) = (Inl e3, w3)
         \<and> retryWithBackoff fn 3 1000 w = (Inl e3, w3)"
proof -
  have fails: "\<And>u. \<exists>e u'. fn u = (Inl e, u')"
  proof -
    fix u
    from assms have "isl (fst (fn u))" by simp
    then show "\<exists>e u'. fn u = (Inl e, u')" by (cases "fn u") (auto simp: isl_def)
  qed
  obtain e1 w1 where c1: "fn w = (Inl e1, w1)" using fails by blast
  obtain e2 w2 where c2: "fn (sleep 1000 w1) = (Inl e2, w2)" using fails by blast
  obtain e3 w3 where c3: "fn (sleep 2000 w2) = (Inl e3, w3)" using fails by blast
  have l3: "retry_loop fn 3 1000 2 (sleep 2000 w2) = (Inl e3, w3)"
    by (subst retry_loop.simps) (simp add: c3)
  have l2: "retry_loop fn 3 1000 1 (sleep 1000 w1) = (Inl e3, w3)"
    by (subst retry_loop.simps) (simp add: c2 l3)
  have l1: "retry_loop fn 3 1000 0 w = (Inl e3, w3)"
    by (subst retry_loop.simps) (simp add: c1 l2)
  show ?thesis using c1 c2 c3 l1 by (simp add: retryWithBackoff_def)
qed


text \<open>
  With a CRM whose every request fails, the three requests and the two waits between
  them are all that happens, and the error of the third request is raised.
\<close>

theorem retryWithBackoff_three_attempts_witness:
  "fst (retryWithBackoff (sendToBitrix24 unreachable_env example_payload) 3 1000
          (initFormValidation None)) = Inl (Rejected 3)
   \<and> crmCalls (snd (retryWithBackoff (sendToBitrix24 unreachable_env example_payload) 3 1000
          (initFormValidation None))) = 3
   \<and> trace (snd (retryWithBackoff (sendToBitrix24 unreachable_env example_payload) 3 1000
          (initFormValidation None)))
       = [CrmPost ''https://crm.example/rest/1/key/crm.lead.add'' example_payload, Sleep 1000,
          CrmPost ''https://crm.example/rest/1/key/crm.lead.add'' example_payload, Sleep 2000,
          CrmPost ''https://crm.example/rest/1/key/crm.lead.add'' example_payload]"
proof -
  have fails: "\<forall>w. isl (fst (sendToBitrix24 unreachable_env example_payload w))"
    by (simp add: sendToBitrix24_unreachable)
  from retryWithBackoff_three_attempts [OF fails, of "initFormValidation None"]
  obtain e1 e2 e3 w1 w2 w3 where
    c1: "sendToBitrix24 unreachable_env example_payload (initFormValidation None) = (Inl e1, w1)" and
    c2: "sendToBitrix24 unreachable_env example_payload (sleep 1000 w1) = (Inl e2, w2)" and
    c3: "sendToBitrix24 unreachable_env example_payload (sleep 2000 w2) = (Inl e3, w3)" and
    r: "retryWithBackoff (sendToBitrix24 unreachable_env example_payload) 3 1000 (initFormValidation None)
          = (Inl e3, w3)"
    by blast
  from c1 have w1: "crmCalls w1 = 1"
      "trace w1 = [CrmPost ''https://crm.example/rest/1/key/crm.lead.add'' example_payload]"
    by (auto simp: sendToBitrix24_unreachable initFormValidation_def setFormState_def)
  from c2 w1 have w2: "crmCalls w2 = 2"
      "trace w2 = [CrmPost ''https://crm.example/rest/1/key/crm.lead.add'' example_payload, Sleep 1000,
                   CrmPost ''https://crm.example/rest/1/key/crm.lead.add'' example_payload]"
    by (auto simp: sendToBitrix24_unreachable sleep_def)
  from c3 w2 have w3: "e3 = Rejected 3" "crmCalls w3 = 3"
      "trace w3 = [CrmPost ''https://crm.example/rest/1/key/crm.lead.add'' example_payload, Sleep 1000,
                   CrmPost ''https://crm.example/rest/1/key/crm.lead.add'' example_payload, Sleep 2000,
                   CrmPost ''https://crm.example/rest/1/key/crm.lead.add'' example_payload]"
    by (auto simp: sendToBitrix24_unreachable sleep_def)
  show ?thesis by (simp add: r w3)
qed


lemma emailFallback_cases:
  "emailFallback env fd w =
     (if isl (sendViaEmail fd (utmParams env) (deviceInfo env))
      then (Inl (Thrown (Literal LeadNotSent)), w)
      else (Inr \<lparr>success = True, method_name = ''email_fallback'',
                 result_message = EmailFallbackMessage,
                 warning = Some EmailFallbackWarning, leadId = None\<rparr>, w))"
  by (simp add: emailFallback_def split: sum.splits)

lemma createLead_returns:
  assumes "fst (createLead env fd w) = Inr r"
  shows "success r
         \<and> (method_name r = ''bitrix24'' \<and> leadId r \<noteq> None \<and> warning r = None
            \<or> method_name r = ''email_fallback'' \<and> warning r \<noteq> None \<and> leadId r = None)"
  using assms
  by (auto simp: createLead_def emailFallback_cases Let_def
      split: prod.splits sum.splits option.splits if_splits)



section \<open>Properties of the submission pipeline\<close>

lemma gasSubmit_returns:
  "gasSubmit g = Inr r \<Longrightarrow>
     r = \<lparr>success = True, method_name = ''gas'', result_message = GasOkMessage,
          warning = None, leadId = None\<rparr>"
  by (auto simp: gasSubmit_def split: sum.splits if_splits)

text \<open>
  Claim C7, as the code has it. Every result of a submission has its method among
  \<open>gas\<close>, \<open>bitrix24\<close>, \<open>email_fallback\<close> and \<open>mock\<close>, a true \<open>success\<close>,
  a \<open>warning\<close> exactly for \<open>email_fallback\<close> and a \<open>leadId\<close> exactly for
  \<open>bitrix24\<close>.
\<close>

theorem submitLead_methods:
  assumes "fst (submitLead env formData w) = Inr r"
  shows "method_name r \<in> set methods \<and> success r
         \<and> (warning r \<noteq> None \<longleftrightarrow> method_name r = ''email_fallback'')
         \<and> (leadId r \<noteq> None \<longleftrightarrow> method_name r = ''bitrix24'')"
proof -
  consider (gas) g where "GAS_API env = Some g" "gasSubmit g = Inr r"
    | (crm) w1 where "fst (createLead env formData w1) = Inr r"
    | (mock) "r = \<lparr>success = True, method_name = ''mock'', result_message = MockMessage,
                    warning = None, leadId = None\<rparr>"
    using assms
    by (auto simp: submitLead_def Let_def split: option.splits sum.splits if_splits)
  then show ?thesis
  proof cases
    case gas
    then show ?thesis using gasSubmit_returns [of g r] by (simp add: methods_def)
  next
    case crm
    then show ?thesis using createLead_returns [of env formData w1 r]
      by (auto simp: methods_def)
  next
    case mock
    then show ?thesis by (simp add: methods_def)
  qed
qed


theorem submitLead_methods_witness:
  "method_name (projr (fst (submitLead primary_env (readForm example_inputs)
                                (initFormValidation None))))
     \<in> set methods"
proof -
  have "fst (submitLead primary_env (readForm example_inputs) (initFormValidation None))
     = Inr \<lparr>success = True, method_name = ''gas'', result_message = GasOkMessage,
            warning = None, leadId = None\<rparr>"
    by (simp add: submitLead_def primary_env_def unreachable_env_def gasSubmit_def get_prop_def)
  from submitLead_methods [OF this] this show ?thesis by simp
qed


text \<open>
  Claim C7, as stated, fails: a submission that the generic backend accepts has the
  method \<open>gas\<close>, which is none of \<open>primary\<close>, \<open>crm\<close>, \<open>email_fallback\<close>,
  \<open>mock\<close>.
\<close>

theorem submitLead_methods_counterexample:
  "fst (submitLead primary_env (readForm example_inputs) (initFormValidation None))
     = Inr \<lparr>success = True, method_name = ''gas'', result_message = GasOkMessage,
            warning = None, leadId = None\<rparr>
   \<and> ''gas'' \<notin> set claimed_methods"
  by (simp add: submitLead_def primary_env_def unreachable_env_def gasSubmit_def get_prop_def
      claimed_methods_def)

lemma setFormState_state [simp]: "currentFormState (setFormState st w) = st"
  by (simp add: setFormState_def Let_def split: option.splits)

lemma setFormState_timers [simp]: "timers (setFormState st w) = timers w"
  by (simp add: setFormState_def Let_def split: option.splits)

lemma setFormState_trace [simp]:
  "trace (setFormState st w) = trace w" "crmCalls (setFormState st w) = crmCalls w"
  by (simp_all add: setFormState_def Let_def split: option.splits)
















section \<open>Properties of the form as an event-driven system\<close>

lemma setFormState_widgets:
  "widgets w = Some b \<Longrightarrow>
     \<exists>b'. widgets (setFormState st w) = Some b'
        \<and> disabled b' = (st = VALIDATING \<or> st = SUBMITTING \<or> st = SUCCESS)"
  by (cases st) (simp_all add: setFormState_def Let_def)

lemma displayFormErrors_frame [simp]:
  "currentFormState (displayFormErrors errs w) = currentFormState w"
  "widgets (displayFormErrors errs w) = widgets w"
  "timers (displayFormErrors errs w) = timers w"
  unfolding displayFormErrors_def
  by (induction errs arbitrary: w; simp add: showFieldError_def split: prod.splits)+

lemma clearAllErrors_frame [simp]:
  "currentFormState (clearAllErrors w) = currentFormState w"
  "widgets (clearAllErrors w) = widgets w"
  "timers (clearAllErrors w) = timers w"
  by (simp_all add: clearAllErrors_def clearFieldError_def)

lemma begin_effect:
  assumes "handleFormSubmit_begin inputs w = (w', r)" and "widgets w = Some b"
  shows "timers w' = timers w
         \<and> (\<exists>b'. widgets w' = Some b' \<and> disabled b' = (r \<noteq> None))
         \<and> currentFormState w' = (if r = None then ERROR else SUBMITTING)"
proof -
  define w0 where "w0 = setFormState VALIDATING ((clearAllErrors w)\<lparr>successMessage := None\<rparr>)"
  have "widgets ((clearAllErrors w)\<lparr>successMessage := None\<rparr>) = Some b"
    using assms(2) by simp
  from setFormState_widgets [OF this, of VALIDATING]
  obtain b0 where b0: "widgets w0 = Some b0" unfolding w0_def by blast
  have t0: "timers w0 = timers w" by (simp add: w0_def)
  show ?thesis
  proof (cases "length (validateForm (readForm inputs)) > 0")
    case True
    with assms(1) have w': "w' = displayFormErrors (validateForm (readForm inputs)) (setFormState ERROR w0)"
      and r: "r = None"
      by (auto simp: handleFormSubmit_begin_def Let_def w0_def)
    from setFormState_widgets [OF b0, of ERROR] show ?thesis
      by (auto simp: w' r t0)
  next
    case False
    with assms(1) have w': "w' = setFormState SUBMITTING w0" and r: "r \<noteq> None"
      by (auto simp: handleFormSubmit_begin_def Let_def w0_def)
    from setFormState_widgets [OF b0, of SUBMITTING] show ?thesis
      using r by (auto simp: w' t0)
  qed
qed

lemma finish_effect:
  assumes "widgets w = Some b"
  shows "(\<exists>b'. widgets (handleFormSubmit_finish outcome w) = Some b'
            \<and> disabled b' = (currentFormState (handleFormSubmit_finish outcome w) = SUCCESS))
         \<and> (currentFormState (handleFormSubmit_finish outcome w) = SUCCESS
              \<and> timers (handleFormSubmit_finish outcome w) = timers w @ [(5000, ResetForm)]
            \<or> currentFormState (handleFormSubmit_finish outcome w) = ERROR
              \<and> timers (handleFormSubmit_finish outcome w) = timers w)"
proof -
  from setFormState_widgets [OF assms, of SUCCESS] setFormState_widgets [OF assms, of ERROR]
  show ?thesis
    by (auto simp: handleFormSubmit_finish_def handleFormSubmit_failed_def setTimeout_def
        showSuccessMessage_def showFieldError_def split: sum.splits)
qed

lemma fire_effect:
  assumes "fire_timer w = Some w'" and "widgets w = Some b"
  shows "currentFormState w' = IDLE \<and> timers w' = tl (timers w)
         \<and> (\<exists>b'. widgets w' = Some b' \<and> \<not> disabled b')"
proof -
  obtain ms cb rest where t: "timers w = (ms, cb) # rest"
    using assms(1) by (auto simp: fire_timer_def split: list.splits)
  have cb: "cb = ResetForm" by (cases cb) simp
  have "widgets (w\<lparr>timers := rest\<rparr>) = Some b" using assms(2) by simp
  from setFormState_widgets [OF this, of IDLE] show ?thesis
    using assms(1) by (auto simp: fire_timer_def t cb)
qed

lemma settled_cases:
  assumes "settled s"
  obtains (ready) b where "widgets (page s) = Some b" "\<not> disabled b"
      "currentFormState (page s) = IDLE \<or> currentFormState (page s) = ERROR"
      "inFlight s = []" "timers (page s) = []"
    | (submitting) b fd where "widgets (page s) = Some b" "disabled b"
      "currentFormState (page s) = SUBMITTING" "inFlight s = [fd]" "timers (page s) = []"
    | (succeeded) b t where "widgets (page s) = Some b" "disabled b"
      "currentFormState (page s) = SUCCESS" "inFlight s = []" "timers (page s) = [t]"
proof -
  from assms obtain b where b: "widgets (page s) = Some b"
    by (auto simp: settled_def split: option.splits)
  show ?thesis
  proof (cases "currentFormState (page s)")
    case IDLE
    with assms b show ?thesis by (intro ready [of b]) (auto simp: settled_def)
  next
    case ERROR
    with assms b show ?thesis by (intro ready [of b]) (auto simp: settled_def)
  next
    case VALIDATING
    with assms b show ?thesis by (simp add: settled_def)
  next
    case SUBMITTING
    with assms b have "disabled b" "length (inFlight s) = 1" "timers (page s) = []"
      by (auto simp: settled_def)
    moreover then obtain fd where "inFlight s = [fd]"
      by (cases "inFlight s") auto
    ultimately show ?thesis using b SUBMITTING by (intro submitting [of b fd]) auto
  next
    case SUCCESS
    with assms b have "disabled b" "inFlight s = []" "length (timers (page s)) = 1"
      by (auto simp: settled_def)
    moreover then obtain t where "timers (page s) = [t]"
      by (cases "timers (page s)") auto
    ultimately show ?thesis using b SUCCESS by (intro succeeded [of b t]) auto
  qed
qed

lemma step_settled:
  assumes st: "settled s" and gate: "is_Submit e \<longrightarrow> submit_enabled s"
    and step: "step e s = Some s'"
  shows "settled s'"
proof (cases e)
  case (Submit inputs)
  with gate have en: "submit_enabled s" by simp
  from st show ?thesis
  proof (cases rule: settled_cases)
    case (ready b)
    obtain w' r where h: "handleFormSubmit_begin inputs (page s) = (w', r)"
      by (cases "handleFormSubmit_begin inputs (page s)")
    from begin_effect [OF h ready(1)] obtain b' where
      e: "timers w' = timers (page s)" "widgets w' = Some b'" "disabled b' = (r \<noteq> None)"
         "currentFormState w' = (if r = None then ERROR else SUBMITTING)"
      by blast
    show ?thesis
    proof (cases r)
      case None
      with step Submit h have "s' = s\<lparr>page := w'\<rparr>" by simp
      with e None ready show ?thesis by (simp add: settled_def)
    next
      case (Some fd)
      with step Submit h have "s' = s\<lparr>page := w', inFlight := inFlight s @ [fd]\<rparr>" by simp
      with e Some ready show ?thesis by (simp add: settled_def)
    qed
  next
    case (submitting b fd)
    with en show ?thesis by (simp add: submit_enabled_def)
  next
    case (succeeded b t)
    with en show ?thesis by (simp add: submit_enabled_def)
  qed
next
  case (Settle i outcome)
  with step have i: "i < length (inFlight s)"
    and s': "s' = s\<lparr>page := handleFormSubmit_finish outcome (page s),
                     inFlight := take i (inFlight s) @ drop (Suc i) (inFlight s)\<rparr>"
    by (auto split: if_splits)
  from st show ?thesis
  proof (cases rule: settled_cases)
    case (submitting b fd)
    with i have "take i (inFlight s) @ drop (Suc i) (inFlight s) = []" by simp
    with finish_effect [OF submitting(1), of outcome] submitting s'
    show ?thesis by (auto simp: settled_def)
  qed (use i in auto)
next
  case TimerFires
  with step obtain w' where f: "fire_timer (page s) = Some w'" and s': "s' = s\<lparr>page := w'\<rparr>"
    by (auto split: option.splits)
  from st show ?thesis
  proof (cases rule: settled_cases)
    case (succeeded b t)
    with fire_effect [OF f succeeded(1)] s' show ?thesis by (auto simp: settled_def)
  qed (use f in \<open>auto simp: fire_timer_def\<close>)
qed

lemma start_settled: "settled (start ws)"
  by (simp add: settled_def start_def initFormValidation_def setFormState_def)

lemma run_settled:
  "settled s \<Longrightarrow> user_driven es s \<Longrightarrow> run es s = Some s' \<Longrightarrow> settled s'"
proof (induction es arbitrary: s)
  case Nil
  then show ?case by simp
next
  case (Cons e es)
  from Cons.prems(3) obtain s1 where s1: "step e s = Some s1" and r: "run es s1 = Some s'"
    by (auto split: option.splits)
  from Cons.prems(2) s1 have g: "is_Submit e \<longrightarrow> submit_enabled s" and u: "user_driven es s1"
    by auto
  from step_settled [OF Cons.prems(1) g s1] have "settled s1" .
  from Cons.IH [OF this u r] show ?case .
qed

lemma user_driven_append:
  "user_driven (es @ [e]) s \<Longrightarrow> run es s = Some s' \<Longrightarrow>
     user_driven es s \<and> (is_Submit e \<longrightarrow> submit_enabled s')"
proof (induction es arbitrary: s)
  case Nil
  then show ?case by simp
next
  case (Cons x xs)
  from Cons.prems(2) obtain s1 where s1: "step x s = Some s1" and r: "run xs s1 = Some s'"
    by (auto split: option.splits)
  from Cons.prems(1) s1 have g: "is_Submit x \<longrightarrow> submit_enabled s"
    and u: "user_driven (xs @ [e]) s1" by auto
  from Cons.IH [OF u r] g s1 show ?case by simp
qed

lemma finish_state:
  "currentFormState (handleFormSubmit_finish outcome w) = SUCCESS
   \<or> currentFormState (handleFormSubmit_finish outcome w) = ERROR"
  by (simp add: handleFormSubmit_finish_def handleFormSubmit_failed_def setTimeout_def
      showSuccessMessage_def showFieldError_def split: sum.splits)

lemma begin_example:
  "handleFormSubmit_begin example_inputs w =
     (setFormState SUBMITTING
        (setFormState VALIDATING ((clearAllErrors w)\<lparr>successMessage := None\<rparr>)),
      Some (readForm example_inputs))"
  by (simp add: handleFormSubmit_begin_def example_inputs_valid Let_def)

lemma example_run:
  "user_driven (example_events @ [Submit example_inputs]) (start example_widgets)
   \<and> run example_events (start example_widgets) \<noteq> None"
  by (simp add: example_events_def start_def initFormValidation_def begin_example
      submit_enabled_def setFormState_def clearAllErrors_def clearFieldError_def
      handleFormSubmit_finish_def example_result_def setTimeout_def showSuccessMessage_def
      fire_timer_def example_widgets_def)

text \<open>
  Claim C8, as the code has it. In every sequence of form events in which each
  \<open>submit\<close> event arrives while the submit button is enabled (the one guard the
  code has), the form state is idle or error at the moment a submission begins and no
  earlier submission is still waiting to settle; and whenever a submission settles,
  the state it leaves is success or error.
\<close>

theorem submission_begins_idle_or_error:
  assumes "user_driven (es @ [Submit inputs]) (start ws)"
    and "run es (start ws) = Some s"
  shows "(currentFormState (page s) = IDLE \<or> currentFormState (page s) = ERROR)
         \<and> inFlight s = []
         \<and> (\<forall>i outcome s1 s2. step (Settle i outcome) s1 = Some s2 \<longrightarrow>
               currentFormState (page s2) = SUCCESS \<or> currentFormState (page s2) = ERROR)"
proof -
  from user_driven_append [OF assms] have u: "user_driven es (start ws)"
    and en: "submit_enabled s" by simp_all
  from run_settled [OF start_settled u assms(2)] have "settled s" .
  then have "(currentFormState (page s) = IDLE \<or> currentFormState (page s) = ERROR)
         \<and> inFlight s = []" using en
    by (cases rule: settled_cases) (auto simp: submit_enabled_def)
  moreover have "currentFormState (page s2) = SUCCESS \<or> currentFormState (page s2) = ERROR"
    if "step (Settle i outcome) s1 = Some s2" for i outcome s1 s2
    using that finish_state [of outcome "page s1"] by (auto split: if_splits)
  ultimately show ?thesis by blast
qed

text \<open>
  One whole submission (submit, settle, reset timer) followed by a second submit
  event is such a sequence; the second submission begins in the idle state.
\<close>

theorem submission_begins_idle_or_error_witness:
  "user_driven (example_events @ [Submit example_inputs]) (start example_widgets)
   \<and> (\<exists>s. run example_events (start example_widgets) = Some s
          \<and> (currentFormState (page s) = IDLE \<or> currentFormState (page s) = ERROR)
          \<and> inFlight s = [])"
proof -
  from example_run obtain s where
    u: "user_driven (example_events @ [Submit example_inputs]) (start example_widgets)"
    and r: "run example_events (start example_widgets) = Some s"
    by auto
  from submission_begins_idle_or_error [OF u r] u r show ?thesis by simp
qed

text \<open>
  Claim C8, as stated, fails: \<open>handleFormSubmit\<close> does not look at the state, so a
  second \<open>submit\<close> event dispatched while the first submission is waiting begins in
  the submitting state and leaves two submissions waiting.
\<close>

theorem submission_begins_idle_or_error_counterexample:
  "map_option (\<lambda>s. currentFormState (page s))
     (run [Submit example_inputs] (start example_widgets)) = Some SUBMITTING
   \<and> map_option (\<lambda>s. (currentFormState (page s), length (inFlight s)))
       (run [Submit example_inputs, Submit example_inputs] (start example_widgets))
     = Some (SUBMITTING, 2)"
  by (simp add: begin_example start_def)



section \<open>Properties of the settings hydrator\<close>

lemma get_truthy_obj: "truthy (get v k) \<Longrightarrow> \<exists>ps. v = JObj ps"
  by (cases v) simp_all










lemma set_display_frame [simp]:
  "sectionsSettings (set_display sel d p) = sectionsSettings p"
  "requests (set_display sel d p) = requests p"
  "cards (set_display sel d p) = cards p"
  by (simp_all add: set_display_def)









lemma show_section_frame [simp]:
  "sectionsSettings (show_section sel p) = sectionsSettings p"
  "requests (show_section sel p) = requests p"
  by (simp_all add: show_section_def split: option.splits)

lemma fold_show_section_frame:
  "sectionsSettings (fold show_section sels p) = sectionsSettings p
   \<and> requests (fold show_section sels p) = requests p"
  by (induction sels arbitrary: p) simp_all

lemma showAllSections_frame [simp]:
  "sectionsSettings (showAllSections p) = sectionsSettings p"
  "requests (showAllSections p) = requests p"
  by (simp_all add: showAllSections_def fold_show_section_frame)



lemma saveRecoveredSettings_frame [simp]:
  "sectionsSettings (saveRecoveredSettings env d p) = sectionsSettings p"
  "display (saveRecoveredSettings env d p) = display p"
  by (simp_all add: saveRecoveredSettings_def)














end
